theory Spec2Isabelle
  imports Complex_Main "HOL-Library.Sublist"
begin

section \<open>JavaScript strings, numbers and errors\<close>

text \<open>
  A JavaScript string is modelled as the list of its code units; a \<^typ>\<open>char\<close> is a
  code unit below 256 (the Latin-1 range, which holds every character the sources mention).
  A thrown \<^verbatim>\<open>new Error(message)\<close> is the value \<open>Error message\<close> on the left of a sum.
\<close>

datatype js_error = Error string

definition code_unit :: "char \<Rightarrow> nat" where
  "code_unit c = of_char c"

text \<open>\<^verbatim>\<open>String.prototype.toLowerCase\<close> on code units below 256: A-Z and the Latin-1
  capitals (0xC0-0xDE without the multiplication sign 0xD7) move up by 32.\<close>

definition toLowerChar :: "char \<Rightarrow> char" where
  "toLowerChar c =
     (let n = code_unit c in
      if (65 \<le> n \<and> n \<le> 90) \<or> (192 \<le> n \<and> n \<le> 222 \<and> n \<noteq> 215)
      then char_of (n + 32) else c)"

definition toLowerCase :: "string \<Rightarrow> string" where
  "toLowerCase s = map toLowerChar s"

text \<open>\<^verbatim>\<open>String.prototype.includes\<close>: the argument occurs as a contiguous run.\<close>

fun str_includes :: "string \<Rightarrow> string \<Rightarrow> bool" where
  "str_includes [] sub = (sub = [])"
| "str_includes (c # cs) sub = (prefix sub (c # cs) \<or> str_includes cs sub)"

section \<open>utils.validateAddress (core/services/utils.ts)\<close>

text \<open>The character classes of the two regular expressions.\<close>

definition class_hex :: "char \<Rightarrow> bool" where
  \<comment> \<open>\<^verbatim>\<open>[a-fA-F0-9]\<close>\<close>
  "class_hex c =
     (let n = code_unit c in
      (97 \<le> n \<and> n \<le> 102) \<or> (65 \<le> n \<and> n \<le> 70) \<or> (48 \<le> n \<and> n \<le> 57))"

definition class_lower_alnum :: "char \<Rightarrow> bool" where
  \<comment> \<open>\<^verbatim>\<open>[0-9a-z]\<close>\<close>
  "class_lower_alnum c =
     (let n = code_unit c in (48 \<le> n \<and> n \<le> 57) \<or> (97 \<le> n \<and> n \<le> 122))"

text \<open>
  Both patterns have the shape \<^verbatim>\<open>^literal[class]{n}$\<close>: no alternation and no
  variable repetition, so matching is one left-to-right pass. \<open>match_literal\<close> consumes
  the literal, \<open>match_class\<close> consumes exactly \<open>n\<close> characters of the class, and the
  anchor \<^verbatim>\<open>$\<close> (no \<^verbatim>\<open>m\<close> flag) demands that nothing is left.
\<close>

fun match_literal :: "string \<Rightarrow> string \<Rightarrow> string option" where
  "match_literal [] s = Some s"
| "match_literal (l # ls) [] = None"
| "match_literal (l # ls) (c # cs) = (if l = c then match_literal ls cs else None)"

fun match_class :: "(char \<Rightarrow> bool) \<Rightarrow> nat \<Rightarrow> string \<Rightarrow> string option" where
  "match_class cls 0 s = Some s"
| "match_class cls (Suc n) [] = None"
| "match_class cls (Suc n) (c # cs) = (if cls c then match_class cls n cs else None)"

definition regex_test :: "string \<Rightarrow> (char \<Rightarrow> bool) \<Rightarrow> nat \<Rightarrow> string \<Rightarrow> bool" where
  "regex_test lit cls n s =
     (case match_literal lit s of
        None \<Rightarrow> False
      | Some rest \<Rightarrow> (case match_class cls n rest of None \<Rightarrow> False | Some rest' \<Rightarrow> rest' = []))"

definition validateAddress :: "string \<Rightarrow> js_error + string" where
  "validateAddress address =
     (if regex_test ''0x'' class_hex 40 address then Inr address
      else if regex_test ''sei1'' class_lower_alnum 38 address then Inr address
      else Inl (Error (''Invalid address: '' @ address)))"

text \<open>The two address shapes as the specification words them: a \<^verbatim>\<open>0x\<close> prefix and
  40 hexadecimal characters; the prefix \<^verbatim>\<open>sei1\<close> and 38 characters that are digits
  or lower-case letters.\<close>

definition is_hex_digit :: "char \<Rightarrow> bool" where
  "is_hex_digit c = (c \<in> set ''0123456789abcdefABCDEF'')"

definition is_bech32_like_char :: "char \<Rightarrow> bool" where
  "is_bech32_like_char c = (c \<in> set ''0123456789abcdefghijklmnopqrstuvwxyz'')"

definition valid_evm_address :: "string \<Rightarrow> bool" where
  "valid_evm_address s =
     (length s = 42 \<and> take 2 s = ''0x'' \<and> list_all is_hex_digit (drop 2 s))"

definition valid_sei_address :: "string \<Rightarrow> bool" where
  "valid_sei_address s =
     (length s = 42 \<and> take 4 s = ''sei1'' \<and> list_all is_bech32_like_char (drop 4 s))"

section \<open>parseInt\<close>

text \<open>
  \<^verbatim>\<open>parseInt(string, radix)\<close> as ECMAScript defines it: leading white space is dropped,
  then one sign, then (radix absent or 16) a \<^verbatim>\<open>0x\<close>/\<^verbatim>\<open>0X\<close> prefix; the longest run
  of digits of the radix is the number, and an empty run is \<^verbatim>\<open>NaN\<close>, here \<open>None\<close>.
  The result is the exact integer (its rounding to a double is not modelled).
\<close>

definition is_js_whitespace :: "char \<Rightarrow> bool" where
  "is_js_whitespace c = (code_unit c \<in> {9, 10, 11, 12, 13, 32, 160})"

definition digit_value :: "char \<Rightarrow> nat option" where
  "digit_value c =
     (let n = code_unit c in
      if 48 \<le> n \<and> n \<le> 57 then Some (n - 48)
      else if 97 \<le> n \<and> n \<le> 122 then Some (n - 87)
      else if 65 \<le> n \<and> n \<le> 90 then Some (n - 55)
      else None)"

definition is_radix_digit :: "nat \<Rightarrow> char \<Rightarrow> bool" where
  "is_radix_digit R c = (case digit_value c of None \<Rightarrow> False | Some d \<Rightarrow> d < R)"

definition digits_value :: "nat \<Rightarrow> string \<Rightarrow> nat" where
  "digits_value R Z = foldl (\<lambda>a c. a * R + (case digit_value c of None \<Rightarrow> 0 | Some d \<Rightarrow> d)) 0 Z"

definition strip_sign :: "string \<Rightarrow> int \<times> string" where
  "strip_sign S =
     (case S of
        [] \<Rightarrow> (1, [])
      | c # cs \<Rightarrow> if c = CHR ''-'' then (- 1, cs) else if c = CHR ''+'' then (1, cs) else (1, c # cs))"

definition parseInt :: "string \<Rightarrow> nat option \<Rightarrow> int option" where
  "parseInt string radix =
     (let (sign, S) = strip_sign (dropWhile is_js_whitespace string);
          R0 = (case radix of None \<Rightarrow> 0 | Some r \<Rightarrow> r)
      in if R0 \<noteq> 0 \<and> (R0 < 2 \<or> 36 < R0) then None
         else
           let stripPrefix = (R0 = 0 \<or> R0 = 16);
               R1 = (if R0 = 0 then 10 else R0);
               hasPrefix = (stripPrefix \<and> (take 2 S = ''0x'' \<or> take 2 S = ''0X''));
               R = (if hasPrefix then 16 else R1);
               S' = (if hasPrefix then drop 2 S else S);
               Z = takeWhile (is_radix_digit R) S'
           in if Z = [] then None else Some (sign * int (digits_value R Z)))"

section \<open>The network registry (core/chains.ts)\<close>

text \<open>
  \<open>networkNameMap\<close> and \<open>chainMap\<close> are plain object literals, so a property read or an
  \<^verbatim>\<open>in\<close> test that misses the object's own keys goes on to \<^verbatim>\<open>Object.prototype\<close>.
  The values such a read can produce are kept apart in \<open>jsval\<close>.
\<close>

datatype chain = sei | seiTestnet | seiDevnet

datatype jsval =
    JNum int
  | JChain chain
  | JObjectConstructor
  | JObjectPrototype
  | JBuiltin string
  | JUndefined

type_synonym js_object = "(string \<times> jsval) list"

definition objectPrototype :: js_object where
  "objectPrototype =
     [(''constructor'', JObjectConstructor),
      (''__defineGetter__'', JBuiltin ''__defineGetter__''),
      (''__defineSetter__'', JBuiltin ''__defineSetter__''),
      (''hasOwnProperty'', JBuiltin ''hasOwnProperty''),
      (''__lookupGetter__'', JBuiltin ''__lookupGetter__''),
      (''__lookupSetter__'', JBuiltin ''__lookupSetter__''),
      (''isPrototypeOf'', JBuiltin ''isPrototypeOf''),
      (''propertyIsEnumerable'', JBuiltin ''propertyIsEnumerable''),
      (''toString'', JBuiltin ''toString''),
      (''valueOf'', JBuiltin ''valueOf''),
      (''__proto__'', JObjectPrototype),
      (''toLocaleString'', JBuiltin ''toLocaleString'')]"

definition js_in :: "string \<Rightarrow> js_object \<Rightarrow> bool" where
  \<comment> \<open>\<^verbatim>\<open>key in obj\<close>\<close>
  "js_in key obj = (key \<in> fst ` set obj \<or> key \<in> fst ` set objectPrototype)"

definition js_get :: "js_object \<Rightarrow> string \<Rightarrow> jsval" where
  \<comment> \<open>\<^verbatim>\<open>obj[key]\<close>\<close>
  "js_get obj key =
     (case map_of obj key of
        Some v \<Rightarrow> v
      | None \<Rightarrow> (case map_of objectPrototype key of Some v \<Rightarrow> v | None \<Rightarrow> JUndefined))"

definition truthy :: "jsval \<Rightarrow> bool" where
  "truthy v = (case v of JNum n \<Rightarrow> n \<noteq> 0 | JUndefined \<Rightarrow> False | _ \<Rightarrow> True)"

definition js_or :: "jsval \<Rightarrow> jsval \<Rightarrow> jsval" where
  \<comment> \<open>\<^verbatim>\<open>a || b\<close>\<close>
  "js_or a b = (if truthy a then a else b)"

text \<open>The decimal numeral of an integer, which is what \<^verbatim>\<open>String(n)\<close> is for the
  integers that JavaScript prints without an exponent.\<close>

fun nat_to_string :: "nat \<Rightarrow> string" where
  "nat_to_string n =
     (if n < 10 then [char_of (48 + n)]
      else nat_to_string (n div 10) @ [char_of (48 + n mod 10)])"

definition number_to_string :: "int \<Rightarrow> string" where
  "number_to_string n = (if n < 0 then CHR ''-'' # nat_to_string (nat (- n)) else nat_to_string (nat n))"

definition toPropertyKey :: "jsval \<Rightarrow> string" where
  \<comment> \<open>the string a value becomes when it is used as a property key\<close>
  "toPropertyKey v =
     (case v of
        JNum n \<Rightarrow> number_to_string n
      | JChain c \<Rightarrow> ''[object Object]''
      | JObjectConstructor \<Rightarrow> ''function Object() { [native code] }''
      | JObjectPrototype \<Rightarrow> ''[object Object]''
      | JBuiltin f \<Rightarrow> ''function '' @ f @ ''() { [native code] }''
      | JUndefined \<Rightarrow> ''undefined'')"

definition DEFAULT_NETWORK :: string where
  "DEFAULT_NETWORK = ''sei-testnet''"

definition DEFAULT_CHAIN_ID :: int where
  "DEFAULT_CHAIN_ID = 1328"

definition chainMap :: js_object where
  "chainMap = [(''1329'', JChain sei), (''1328'', JChain seiTestnet), (''713715'', JChain seiDevnet)]"

definition networkNameMap :: js_object where
  "networkNameMap = [(''sei'', JNum 1329), (''sei-testnet'', JNum 1328), (''sei-devnet'', JNum 713715)]"

text \<open>An argument of type \<^verbatim>\<open>number | string\<close>.\<close>

datatype chain_identifier = NumId int | StrId string

definition resolveChainId :: "chain_identifier \<Rightarrow> jsval" where
  "resolveChainId chainIdentifier =
     (case chainIdentifier of
        NumId n \<Rightarrow> JNum n
      | StrId str \<Rightarrow>
          (let networkName = toLowerCase str in
           if js_in networkName networkNameMap then js_get networkNameMap networkName
           else (case parseInt networkName None of
                   Some parsedId \<Rightarrow> JNum parsedId
                 | None \<Rightarrow> JNum DEFAULT_CHAIN_ID)))"

definition getChain :: "chain_identifier \<Rightarrow> js_error + jsval" where
  "getChain chainIdentifier =
     (case chainIdentifier of
        StrId str \<Rightarrow>
          (let networkName = toLowerCase str in
           if truthy (js_get networkNameMap networkName)
           then Inr (js_or (js_get chainMap (toPropertyKey (js_get networkNameMap networkName)))
                      (JChain sei))
           else Inl (Error (''Unsupported network: '' @ str)))
      | NumId n \<Rightarrow> Inr (js_or (js_get chainMap (toPropertyKey (JNum n))) (JChain sei)))"

definition getSupportedNetworks :: "string list" where
  \<comment> \<open>\<^verbatim>\<open>Object.keys(networkNameMap).filter(name => !name.includes('-'))\<close>\<close>
  "getSupportedNetworks = filter (\<lambda>name. \<not> str_includes name ''-'') (map fst networkNameMap)"

text \<open>The network aliases the registry knows: the own keys of \<open>networkNameMap\<close>.\<close>

definition known_alias :: "string \<Rightarrow> bool" where
  "known_alias name = (name \<in> fst ` set networkNameMap)"

section \<open>The network service (core/services/network.ts)\<close>

record network_info =
  name :: string
  chainId :: string
  netType :: string
  rpcUrl :: string
  restUrl :: string

text \<open>The service of the same name returns a fixed list of descriptors.\<close>

definition service_getSupportedNetworks :: "network_info list" where
  "service_getSupportedNetworks =
     [\<lparr>name = ''sei'', chainId = ''pacific-1'', netType = ''cosmos'',
        rpcUrl = ''https://rpc.sei-apis.com'', restUrl = ''https://rest.sei-apis.com''\<rparr>,
      \<lparr>name = ''sei-testnet'', chainId = ''atlantic-2'', netType = ''cosmos'',
        rpcUrl = ''https://rpc-testnet.sei-apis.com'',
        restUrl = ''https://rest-testnet.sei-apis.com''\<rparr>]"

section \<open>Transaction history (core/services/transactions.ts)\<close>

text \<open>
  What the code reads from the chain. Amounts that the code holds as \<^verbatim>\<open>bigint\<close> or as
  the decimal string of one (\<^verbatim>\<open>gasUsed\<close>, \<^verbatim>\<open>gasPrice\<close>, \<^verbatim>\<open>value\<close>, \<^verbatim>\<open>fee\<close>) are the
  integer they denote. A time stamp string is the number of milliseconds it denotes.
\<close>

record transaction =
  tx_hash :: string
  tx_from :: string
  tx_to :: "string option"
  tx_value :: int
  tx_gasPrice :: "int option"
  tx_input :: string

record block =
  block_number :: int
  block_timestamp :: int
  block_transactions :: "transaction list"

record receipt =
  receipt_gasUsed :: int
  receipt_status :: string

text \<open>The public client: every read either fails or returns a value.\<close>

record client =
  getBlockNumber :: "js_error + int"
  getBlock :: "int \<Rightarrow> js_error + block"
  getTransactionReceipt :: "string \<Rightarrow> js_error + receipt"
  getTransactionCount :: "string \<Rightarrow> js_error + int"

datatype tx_status = Success | Failed

datatype tx_type = Transfer | Contract | Swap | Other

record history_entry =
  hash :: string
  from_address :: string
  to_address :: "string option"
  value_wei :: int
  gasUsed :: int
  gasPrice :: int
  blockNumber :: int
  timestamp :: int
  status :: tx_status
  txType :: tx_type
  fee :: int

record history =
  transactions :: "history_entry list"
  totalCount :: nat

definition error_message :: "js_error \<Rightarrow> string" where
  "error_message e = (case e of Error m \<Rightarrow> m)"

text \<open>\<^verbatim>\<open>new Date(ms).toISOString()\<close> throws a RangeError outside the range of dates.\<close>

definition toISOString :: "int \<Rightarrow> int option" where
  "toISOString ms = (if \<bar>ms\<bar> \<le> 8640000000000000 then Some ms else None)"

definition isInvolved :: "string \<Rightarrow> transaction \<Rightarrow> bool" where
  "isInvolved address tx =
     (toLowerCase (tx_from tx) = toLowerCase address \<or>
      (case tx_to tx of None \<Rightarrow> False | Some t \<Rightarrow> toLowerCase t = toLowerCase address))"

definition classify :: "transaction \<Rightarrow> tx_type" where
  \<comment> \<open>the local \<^verbatim>\<open>txType\<close>\<close>
  "classify tx =
     (case tx_to tx of
        None \<Rightarrow> Contract
      | Some t \<Rightarrow>
          if tx_input tx \<noteq> [] \<and> tx_input tx \<noteq> ''0x'' then
            (let input = toLowerCase (tx_input tx) in
             if str_includes input ''a9059cbb'' \<or> str_includes input ''23b872dd'' then Transfer
             else if str_includes input ''7ff36ab5'' \<or> str_includes input ''38ed1739'' then Swap
             else Contract)
          else Transfer)"

definition receipt_info :: "client \<Rightarrow> string \<Rightarrow> int \<times> tx_status" where
  \<comment> \<open>\<^verbatim>\<open>gasUsed\<close> and \<^verbatim>\<open>status\<close> keep their defaults when the receipt cannot be read\<close>
  "receipt_info c h =
     (case getTransactionReceipt c h of
        Inl e \<Rightarrow> (0, Success)
      | Inr r \<Rightarrow> (receipt_gasUsed r, if receipt_status r = ''success'' then Success else Failed))"

definition make_entry :: "client \<Rightarrow> block \<Rightarrow> transaction \<Rightarrow> history_entry option" where
  \<comment> \<open>the object pushed for one transaction; \<open>None\<close> when building it throws\<close>
  "make_entry c b tx =
     (let (gas_used, st) = receipt_info c (tx_hash tx);
          gas_price = (case tx_gasPrice tx of None \<Rightarrow> 0 | Some g \<Rightarrow> if g = 0 then 0 else g)
      in case toISOString (block_timestamp b * 1000) of
           None \<Rightarrow> None
         | Some ts \<Rightarrow>
             Some \<lparr>hash = tx_hash tx, from_address = tx_from tx, to_address = tx_to tx,
                   value_wei = tx_value tx, gasUsed = gas_used, gasPrice = gas_price,
                   blockNumber = block_number b, timestamp = ts, status = st,
                   txType = classify tx, fee = gas_used * gas_price\<rparr>)"

text \<open>
  The loop over one block's transactions. An exception while an entry is built leaves
  the loop (it is caught around the whole block), keeping what was pushed before.
  \<open>limit\<close> is a JavaScript number, which nothing forces to be whole or positive: it is
  a rational here, compared with the length of the list as the code compares them.
\<close>

fun scanTransactions ::
  "client \<Rightarrow> string \<Rightarrow> rat \<Rightarrow> block \<Rightarrow> transaction list \<Rightarrow> history_entry list \<Rightarrow> history_entry list"
where
  "scanTransactions c address limit b [] acc = acc"
| "scanTransactions c address limit b (tx # txs) acc =
     (if isInvolved address tx \<and> of_nat (length acc) < limit then
        (case make_entry c b tx of
           None \<Rightarrow> acc
         | Some e \<Rightarrow> scanTransactions c address limit b txs (acc @ [e]))
      else scanTransactions c address limit b txs acc)"

text \<open>The loop over the blocks, from \<open>blockNum\<close> down to \<open>startBlock + 1\<close>; a block that
  cannot be read is skipped.\<close>

function scanBlocks ::
  "client \<Rightarrow> string \<Rightarrow> rat \<Rightarrow> int \<Rightarrow> int \<Rightarrow> history_entry list \<Rightarrow> history_entry list"
where
  "scanBlocks c address limit startBlock blockNum acc =
     (if startBlock < blockNum \<and> of_nat (length acc) < limit then
        (case getBlock c blockNum of
           Inl e \<Rightarrow> scanBlocks c address limit startBlock (blockNum - 1) acc
         | Inr b \<Rightarrow>
             scanBlocks c address limit startBlock (blockNum - 1)
               (scanTransactions c address limit b (block_transactions b) acc))
      else acc)"
  by pat_completeness auto
termination
  by (relation "measure (\<lambda>(c, address, limit, startBlock, blockNum, acc). nat (blockNum - startBlock))")
    auto

declare scanBlocks.simps [simp del]

definition getTransactionHistory :: "client \<Rightarrow> string \<Rightarrow> rat \<Rightarrow> js_error + history" where
  "getTransactionHistory c address limit =
     (case getBlockNumber c of
        Inl e \<Rightarrow> Inl (Error (''Failed to fetch transaction history: '' @ error_message e))
      | Inr latestBlock \<Rightarrow>
          (let blocksToSearch = min 100 latestBlock;
               startBlock = latestBlock - blocksToSearch;
               found = scanBlocks c address limit startBlock latestBlock [];
               sorted_txs = sort_key (\<lambda>e. - blockNumber e) found
           in Inr \<lparr>transactions = sorted_txs, totalCount = length sorted_txs\<rparr>))"

text \<open>The classification as the specification words it: by the leading four-byte
  selector of the call data alone.\<close>

definition leading_selector :: "string \<Rightarrow> string" where
  "leading_selector input = take 8 (drop 2 (toLowerCase input))"

definition spec_txType :: "transaction \<Rightarrow> tx_type" where
  "spec_txType tx =
     (if tx_input tx = [] \<or> tx_input tx = ''0x'' then Transfer
      else if leading_selector (tx_input tx) \<in> {''a9059cbb'', ''23b872dd''} then Transfer
      else if leading_selector (tx_input tx) \<in> {''7ff36ab5'', ''38ed1739''} then Swap
      else Contract)"

section \<open>Wallet activity (core/services/transactions.ts)\<close>

record recent_transaction =
  rt_hash :: string
  rt_type :: tx_type
  rt_amount :: int
  rt_timestamp :: int

record wallet_activity =
  transactionCount :: int
  lastActivity :: "int option"
  recentTransactions :: "recent_transaction list"

text \<open>\<open>random\<close> is the value of \<^verbatim>\<open>Math.random()\<close> and \<open>now\<close> that of \<^verbatim>\<open>Date.now()\<close>.\<close>

definition daysAgo :: "rat \<Rightarrow> int \<Rightarrow> int" where
  "daysAgo random count =
     max 1 (min 365 \<lfloor>random * (if 100 < count then 30 else if 10 < count then 90 else 180)\<rfloor>)"

definition wrap_activity_error :: "js_error \<Rightarrow> js_error" where
  "wrap_activity_error e = Error (''Failed to fetch wallet activity: '' @ error_message e)"

definition getWalletActivity :: "client \<Rightarrow> string \<Rightarrow> rat \<Rightarrow> int \<Rightarrow> js_error + wallet_activity" where
  "getWalletActivity c address random now =
     (case getTransactionCount c address of
        Inl e \<Rightarrow> Inl (wrap_activity_error e)
      | Inr count \<Rightarrow>
          (case getTransactionHistory c address 5 of
             Inl e \<Rightarrow> Inl (wrap_activity_error e)
           | Inr h \<Rightarrow>
               (let recent = map (\<lambda>tx. \<lparr>rt_hash = hash tx, rt_type = txType tx,
                                         rt_amount = value_wei tx, rt_timestamp = timestamp tx\<rparr>)
                               (transactions h)
                in case transactions h of
                     newest # rest \<Rightarrow>
                       Inr \<lparr>transactionCount = count, lastActivity = Some (timestamp newest),
                            recentTransactions = recent\<rparr>
                   | [] \<Rightarrow>
                       if 0 < count then
                         (case toISOString (now - daysAgo random count * 24 * 60 * 60 * 1000) of
                            None \<Rightarrow> Inl (wrap_activity_error (Error ''Invalid time value''))
                          | Some t \<Rightarrow>
                              Inr \<lparr>transactionCount = count, lastActivity = Some t,
                                   recentTransactions = recent\<rparr>)
                       else
                         Inr \<lparr>transactionCount = count, lastActivity = None,
                              recentTransactions = recent\<rparr>)))"

section \<open>The risk score of the analyze_wallet tool (core/tools.ts)\<close>

text \<open>
  A JavaScript number is \<^verbatim>\<open>NaN\<close> or a value; the values are exact rationals here, so the
  rounding of double arithmetic is not modelled. \<open>balanceValue\<close> is
  \<^verbatim>\<open>parseFloat(balance.sei)\<close>; a comparison with \<^verbatim>\<open>NaN\<close> is false, arithmetic with it
  gives \<^verbatim>\<open>NaN\<close> and so does \<^verbatim>\<open>Math.min\<close>.
\<close>

datatype jsnum = NaN | Num rat

definition slice_last4 :: "string \<Rightarrow> string" where
  \<comment> \<open>\<^verbatim>\<open>address.slice(-4)\<close>\<close>
  "slice_last4 address = drop (length address - 4) address"

definition count_risk :: "int \<Rightarrow> rat" where
  "count_risk count =
     (if 10 < count then 5 / 100 else 0) + (if 50 < count then 1 / 10 else 0) +
     (if 100 < count then 15 / 100 else 0) + (if 500 < count then 2 / 10 else 0) +
     (if 1000 < count then 25 / 100 else 0)"

definition recency_risk :: "int option \<Rightarrow> int \<Rightarrow> rat" where
  "recency_risk last_ms now =
     (case last_ms of
        None \<Rightarrow> 0
      | Some t \<Rightarrow>
          (let daysSinceLastActivity = (of_int (now - t) :: rat) / (1000 * 60 * 60 * 24) in
           if daysSinceLastActivity < 1 then 1 / 10
           else if daysSinceLastActivity < 7 then 5 / 100 else 0))"

definition balance_risk :: "jsnum \<Rightarrow> rat" where
  "balance_risk balanceValue =
     (case balanceValue of
        NaN \<Rightarrow> 0
      | Num b \<Rightarrow> (if 1000 < b then 1 / 10 else 0) + (if 10000 < b then 15 / 100 else 0))"

definition riskScore :: "int \<Rightarrow> int option \<Rightarrow> int \<Rightarrow> jsnum \<Rightarrow> string \<Rightarrow> jsnum" where
  "riskScore count last_ms now balanceValue address =
     (let base = 5 / 100 + count_risk count + recency_risk last_ms now + balance_risk balanceValue
      in case parseInt (slice_last4 address) (Some 16) of
           None \<Rightarrow> NaN
         | Some n \<Rightarrow> Num (min (base + (of_int n / 65535) * (1 / 10)) (85 / 100)))"

definition in_range :: "jsnum \<Rightarrow> bool" where
  \<comment> \<open>within the closed interval [0.05, 0.85]\<close>
  "in_range x = (case x of NaN \<Rightarrow> False | Num r \<Rightarrow> 5 / 100 \<le> r \<and> r \<le> 85 / 100)"

section \<open>Example chains\<close>

text \<open>
  A chain of two blocks in which \<open>example_sender\<close> pays \<open>example_address\<close> three times
  (twice in block 2, once in block 1), so that \<open>example_address\<close> has sent nothing and
  its transaction count is 0; \<open>example_bystander\<close> takes part in none of the payments.
\<close>

definition example_address :: string where
  "example_address = ''0x000000000000000000000000000000000000dEaD''"

definition example_sender :: string where
  "example_sender = ''0x1111111111111111111111111111111111111111''"

definition example_tx :: "string \<Rightarrow> transaction" where
  "example_tx h =
     \<lparr>tx_hash = h, tx_from = example_sender, tx_to = Some example_address, tx_value = 1,
      tx_gasPrice = Some 1000000000, tx_input = ''0x''\<rparr>"

definition example_block :: "int \<Rightarrow> js_error + block" where
  "example_block n =
     (if n = 2 then
        Inr \<lparr>block_number = 2, block_timestamp = 1700000012,
             block_transactions = [example_tx ''0xa1'', example_tx ''0xa2'']\<rparr>
      else if n = 1 then
        Inr \<lparr>block_number = 1, block_timestamp = 1700000000,
             block_transactions = [example_tx ''0xb1'']\<rparr>
      else Inl (Error ''block not found''))"

definition example_client :: client where
  "example_client =
     \<lparr>getBlockNumber = Inr 2,
      getBlock = example_block,
      getTransactionReceipt = (\<lambda>h. Inr \<lparr>receipt_gasUsed = 21000, receipt_status = ''success''\<rparr>),
      getTransactionCount = (\<lambda>a. if a = example_sender then Inr 3 else Inr 0)\<rparr>"

definition example_entry :: "string \<Rightarrow> int \<Rightarrow> int \<Rightarrow> history_entry" where
  "example_entry h n ts =
     \<lparr>hash = h, from_address = example_sender, to_address = Some example_address,
      value_wei = 1, gasUsed = 21000, gasPrice = 1000000000, blockNumber = n, timestamp = ts,
      status = Success, txType = Transfer, fee = 21000000000000\<rparr>"

definition example_bystander :: string where
  "example_bystander = ''0x2222222222222222222222222222222222222222''"

text \<open>Two calls: one whose argument holds the bytes of the ERC-20 transfer selector while
  its own selector is another one, and a contract creation without call data.\<close>

definition example_call :: transaction where
  "example_call =
     \<lparr>tx_hash = ''0xc1'', tx_from = example_sender, tx_to = Some example_address, tx_value = 0,
      tx_gasPrice = Some 1000000000, tx_input = ''0x12345678a9059cbb''\<rparr>"

definition example_creation :: transaction where
  "example_creation =
     \<lparr>tx_hash = ''0xc2'', tx_from = example_sender, tx_to = None, tx_value = 0,
      tx_gasPrice = Some 1000000000, tx_input = ''0x''\<rparr>"

text \<open>What the code returns on \<open>example_client\<close> for \<open>example_address\<close>.\<close>

definition example_history :: history where
  "example_history =
     \<lparr>transactions =
        [example_entry ''0xa1'' 2 1700000012000, example_entry ''0xa2'' 2 1700000012000,
         example_entry ''0xb1'' 1 1700000000000],
      totalCount = 3\<rparr>"

definition example_history_two :: history where
  "example_history_two =
     \<lparr>transactions =
        [example_entry ''0xa1'' 2 1700000012000, example_entry ''0xa2'' 2 1700000012000],
      totalCount = 2\<rparr>"

definition example_activity :: wallet_activity where
  "example_activity =
     \<lparr>transactionCount = 0, lastActivity = Some 1700000012000,
      recentTransactions =
        [\<lparr>rt_hash = ''0xa1'', rt_type = Transfer, rt_amount = 1, rt_timestamp = 1700000012000\<rparr>,
         \<lparr>rt_hash = ''0xa2'', rt_type = Transfer, rt_amount = 1, rt_timestamp = 1700000012000\<rparr>,
         \<lparr>rt_hash = ''0xb1'', rt_type = Transfer, rt_amount = 1, rt_timestamp = 1700000000000\<rparr>]\<rparr>"

definition example_sei_address :: string where
  "example_sei_address = ''sei1qqqqqqqqqqqqqqqqqqqqqqqqqqqqqqqqqqqqqq''"

definition example_transfer_call :: transaction where
  "example_transfer_call =
     \<lparr>tx_hash = ''0xc3'', tx_from = example_sender, tx_to = Some example_address, tx_value = 0,
      tx_gasPrice = Some 1000000000, tx_input = ''0xA9059CBB0000''\<rparr>"

definition example_swap_call :: transaction where
  "example_swap_call =
     \<lparr>tx_hash = ''0xc4'', tx_from = example_sender, tx_to = Some example_address, tx_value = 0,
      tx_gasPrice = Some 1000000000, tx_input = ''0x38ed17390000''\<rparr>"

definition example_other_call :: transaction where
  "example_other_call =
     \<lparr>tx_hash = ''0xc5'', tx_from = example_sender, tx_to = Some example_address, tx_value = 0,
      tx_gasPrice = Some 1000000000, tx_input = ''0xdeadbeef''\<rparr>"

text \<open>A chain whose only block holds the first two of these calls, both sent by
  \<open>example_sender\<close>, and the entries the code builds for them.\<close>

definition calls_client :: client where
  "calls_client =
     \<lparr>getBlockNumber = Inr 1,
      getBlock =
        (\<lambda>n. if n = 1 then
               Inr \<lparr>block_number = 1, block_timestamp = 1700000000,
                    block_transactions = [example_call, example_creation]\<rparr>
             else Inl (Error ''block not found'')),
      getTransactionReceipt = (\<lambda>h. Inr \<lparr>receipt_gasUsed = 21000, receipt_status = ''success''\<rparr>),
      getTransactionCount = (\<lambda>a. if a = example_sender then Inr 2 else Inr 0)\<rparr>"

definition calls_entry :: "string \<Rightarrow> string option \<Rightarrow> tx_type \<Rightarrow> history_entry" where
  "calls_entry h recipient ty =
     \<lparr>hash = h, from_address = example_sender, to_address = recipient,
      value_wei = 0, gasUsed = 21000, gasPrice = 1000000000, blockNumber = 1,
      timestamp = 1700000000000, status = Success, txType = ty, fee = 21000000000000\<rparr>"

section \<open>Address validation\<close>

lemma match_literal_iff: "match_literal lit s = Some rest \<longleftrightarrow> s = lit @ rest"
  by (induction lit s rule: match_literal.induct) auto

lemma match_class_iff:
  "match_class cls n s = Some rest \<longleftrightarrow>
     (\<exists>pre. s = pre @ rest \<and> length pre = n \<and> list_all cls pre)"
proof (induction cls n s rule: match_class.induct)
  case (1 cls s)
  then show ?case by auto
next
  case (2 cls n)
  then show ?case by auto
next
  case (3 cls n c cs)
  show ?case
  proof (cases "cls c")
    case True
    show ?thesis
    proof
      assume "match_class cls (Suc n) (c # cs) = Some rest"
      with True 3 obtain pre where "cs = pre @ rest" "length pre = n" "list_all cls pre"
        by auto
      with True have "c # cs = (c # pre) @ rest \<and> length (c # pre) = Suc n \<and>
          list_all cls (c # pre)"
        by simp
      then show "\<exists>pre. c # cs = pre @ rest \<and> length pre = Suc n \<and> list_all cls pre"
        by blast
    next
      assume "\<exists>pre. c # cs = pre @ rest \<and> length pre = Suc n \<and> list_all cls pre"
      then obtain pre where p: "c # cs = pre @ rest" "length pre = Suc n" "list_all cls pre"
        by blast
      then obtain p ps where "pre = p # ps" by (cases pre) auto
      with p have "cs = ps @ rest" "length ps = n" "list_all cls ps" by auto
      with True 3 show "match_class cls (Suc n) (c # cs) = Some rest" by auto
    qed
  next
    case False
    then show ?thesis by (auto simp: Cons_eq_append_conv)
  qed
qed

lemma regex_test_iff:
  "regex_test lit cls n s \<longleftrightarrow>
     (length s = length lit + n \<and> take (length lit) s = lit \<and>
      list_all cls (drop (length lit) s))"
proof
  assume "regex_test lit cls n s"
  then obtain rest where r: "match_literal lit s = Some rest" "match_class cls n rest = Some []"
    by (auto simp: regex_test_def split: option.splits)
  from r(1) have s: "s = lit @ rest" by (simp add: match_literal_iff)
  from r(2) have "length rest = n \<and> list_all cls rest" by (auto simp: match_class_iff)
  with s show "length s = length lit + n \<and> take (length lit) s = lit \<and>
      list_all cls (drop (length lit) s)"
    by simp
next
  assume a: "length s = length lit + n \<and> take (length lit) s = lit \<and>
      list_all cls (drop (length lit) s)"
  define rest where "rest = drop (length lit) s"
  from a have t: "take (length lit) s = lit" by blast
  have "lit @ rest = take (length lit) s @ drop (length lit) s" by (simp only: t rest_def)
  also have "\<dots> = s" by (rule append_take_drop_id)
  finally have s: "s = lit @ rest" by (rule sym)
  from a have "length rest = n" "list_all cls rest" by (auto simp: rest_def)
  then have m: "match_class cls n rest = Some []" by (simp add: match_class_iff)
  have "match_literal lit s = Some rest" unfolding match_literal_iff by (rule s)
  with m show "regex_test lit cls n s" by (simp add: regex_test_def)
qed

lemma class_hex_iff: "class_hex c = is_hex_digit c"
  unfolding class_hex_def is_hex_digit_def code_unit_def Let_def
  by (cases c) simp

lemma class_lower_alnum_iff: "class_lower_alnum c = is_bech32_like_char c"
  unfolding class_lower_alnum_def is_bech32_like_char_def code_unit_def Let_def
  by (cases c) simp

text \<open>
  C4. A string of one of the two address shapes is returned unchanged; every other string
  makes \<open>validateAddress\<close> fail with the error \<^verbatim>\<open>Invalid address: ...\<close>. The function is
  pure: it reads nothing but its argument, so it fails before any read of the chain.
\<close>

theorem validateAddress_spec:
  "(valid_evm_address s \<or> valid_sei_address s \<longrightarrow> validateAddress s = Inr s) \<and>
   (\<not> (valid_evm_address s \<or> valid_sei_address s) \<longrightarrow>
      validateAddress s = Inl (Error (''Invalid address: '' @ s)))"
proof -
  have hex: "class_hex = is_hex_digit" by (rule ext) (rule class_hex_iff)
  have low: "class_lower_alnum = is_bech32_like_char" by (rule ext) (rule class_lower_alnum_iff)
  have l2: "length ''0x'' = 2" and l4: "length ''sei1'' = 4" by simp_all
  have e: "regex_test ''0x'' class_hex 40 s = valid_evm_address s"
    unfolding regex_test_iff l2 hex by (simp add: valid_evm_address_def)
  have b: "regex_test ''sei1'' class_lower_alnum 38 s = valid_sei_address s"
    unfolding regex_test_iff l4 low by (simp add: valid_sei_address_def)
  show ?thesis unfolding validateAddress_def e b by simp
qed

theorem validateAddress_spec_witness:
  "validateAddress ''0x000000000000000000000000000000000000dEaD'' =
     Inr ''0x000000000000000000000000000000000000dEaD'' \<and>
   validateAddress ''sei1qqqqqqqqqqqqqqqqqqqqqqqqqqqqqqqqqqqqqq'' =
     Inr ''sei1qqqqqqqqqqqqqqqqqqqqqqqqqqqqqqqqqqqqqq'' \<and>
   validateAddress ''0x0000000000000000000000000000000000dEaD'' =
     Inl (Error ''Invalid address: 0x0000000000000000000000000000000000dEaD'')"
proof -
  have a: "valid_evm_address ''0x000000000000000000000000000000000000dEaD''"
    by (simp add: valid_evm_address_def is_hex_digit_def)
  have b: "valid_sei_address ''sei1qqqqqqqqqqqqqqqqqqqqqqqqqqqqqqqqqqqqqq''"
    by (simp add: valid_sei_address_def is_bech32_like_char_def)
  have c: "\<not> (valid_evm_address ''0x0000000000000000000000000000000000dEaD'' \<or>
      valid_sei_address ''0x0000000000000000000000000000000000dEaD'')"
    by (simp add: valid_evm_address_def valid_sei_address_def)
  show ?thesis
    using a b c validateAddress_spec [of "''0x000000000000000000000000000000000000dEaD''"]
      validateAddress_spec [of "''sei1qqqqqqqqqqqqqqqqqqqqqqqqqqqqqqqqqqqqqq''"]
      validateAddress_spec [of "''0x0000000000000000000000000000000000dEaD''"]
    by simp
qed

section \<open>Supported networks\<close>

text \<open>
  C7, as amended. The registry's \<open>getSupportedNetworks\<close> (core/chains.ts) lists no name
  with a hyphen: it lists \<^verbatim>\<open>sei\<close> and leaves out \<^verbatim>\<open>sei-testnet\<close> and \<^verbatim>\<open>sei-devnet\<close>.
\<close>

theorem getSupportedNetworks_no_hyphen:
  "(\<forall>n \<in> set getSupportedNetworks. \<not> str_includes n ''-'') \<and>
   getSupportedNetworks = [''sei'']"
proof -
  have "\<forall>n \<in> set getSupportedNetworks. \<not> str_includes n ''-''"
    unfolding getSupportedNetworks_def by simp
  moreover have "getSupportedNetworks = [''sei'']"
    by (simp add: getSupportedNetworks_def networkNameMap_def)
  ultimately show ?thesis by blast
qed

theorem getSupportedNetworks_no_hyphen_witness:
  "''sei'' \<in> set getSupportedNetworks \<and> \<not> str_includes ''sei'' ''-''"
proof -
  have e: "getSupportedNetworks = [''sei'']"
    using getSupportedNetworks_no_hyphen by blast
  have m: "''sei'' \<in> set getSupportedNetworks"
    by (simp add: e)
  with getSupportedNetworks_no_hyphen show ?thesis by blast
qed

text \<open>
  C7 as stated fails for the other \<open>getSupportedNetworks\<close>, the one of
  core/services/network.ts behind the REST route: its second entry is named
  \<^verbatim>\<open>sei-testnet\<close>.
\<close>

theorem service_getSupportedNetworks_hyphen:
  "''sei-testnet'' \<in> set (map name service_getSupportedNetworks) \<and>
   str_includes ''sei-testnet'' ''-''"
  by (simp add: service_getSupportedNetworks_def)

section \<open>Transaction history\<close>

subsection \<open>The number of entries\<close>

lemma push_within_limit: "of_nat n < (l::rat) \<Longrightarrow> Suc n \<le> nat \<lceil>l\<rceil>"
proof -
  assume a: "of_nat n < l"
  have "l \<le> of_int \<lceil>l\<rceil>" by (rule le_of_int_ceiling)
  with a have "of_nat n < (of_int \<lceil>l\<rceil> :: rat)" by (rule less_le_trans)
  then have "(of_int (int n) :: rat) < of_int \<lceil>l\<rceil>" by simp
  then have "int n < \<lceil>l\<rceil>" by (simp only: of_int_less_iff)
  then show ?thesis by linarith
qed

lemma scanTransactions_length:
  "length acc \<le> nat \<lceil>limit\<rceil> \<Longrightarrow>
   length (scanTransactions c a limit b txs acc) \<le> nat \<lceil>limit\<rceil>"
proof (induction txs arbitrary: acc)
  case Nil
  then show ?case by simp
next
  case (Cons tx txs)
  show ?case
  proof (cases "isInvolved a tx \<and> of_nat (length acc) < limit")
    case True
    then have room: "Suc (length acc) \<le> nat \<lceil>limit\<rceil>" by (simp add: push_within_limit)
    show ?thesis
    proof (cases "make_entry c b tx")
      case None
      with True Cons.prems show ?thesis by simp
    next
      case (Some e)
      from room have "length (acc @ [e]) \<le> nat \<lceil>limit\<rceil>" by simp
      then have "length (scanTransactions c a limit b txs (acc @ [e])) \<le> nat \<lceil>limit\<rceil>"
        by (rule Cons.IH)
      with True Some show ?thesis by simp
    qed
  next
    case False
    with Cons show ?thesis by auto
  qed
qed

lemma scanBlocks_length:
  "length acc \<le> nat \<lceil>limit\<rceil> \<Longrightarrow>
   length (scanBlocks c a limit s n acc) \<le> nat \<lceil>limit\<rceil>"
proof (induction c a limit s n acc rule: scanBlocks.induct)
  case (1 c address limit startBlock blockNum acc)
  show ?case
  proof (cases "startBlock < blockNum \<and> of_nat (length acc) < limit")
    case True
    show ?thesis
    proof (cases "getBlock c blockNum")
      case (Inl e)
      with True 1 show ?thesis
        by (simp add: scanBlocks.simps [of c address limit startBlock blockNum acc])
    next
      case (Inr b)
      with True 1 show ?thesis
        by (simp add: scanBlocks.simps [of c address limit startBlock blockNum acc]
            scanTransactions_length)
    qed
  next
    case False
    then have "scanBlocks c address limit startBlock blockNum acc = acc"
      by (subst scanBlocks.simps) auto
    with 1 show ?thesis by simp
  qed
qed

lemma history_found:
  assumes "getTransactionHistory c address limit = Inr r"
  obtains latest where "getBlockNumber c = Inr latest"
    and "transactions r =
      sort_key (\<lambda>e. - blockNumber e)
        (scanBlocks c address limit (latest - min 100 latest) latest [])"
    and "totalCount r = length (transactions r)"
proof -
  from assms obtain latest where l: "getBlockNumber c = Inr latest"
    by (cases "getBlockNumber c") (simp_all add: getTransactionHistory_def)
  from assms l have "transactions r =
      sort_key (\<lambda>e. - blockNumber e)
        (scanBlocks c address limit (latest - min 100 latest) latest [])"
    and "totalCount r = length (transactions r)"
    by (auto simp: getTransactionHistory_def Let_def)
  with l that show thesis by blast
qed

lemma history_length:
  assumes "getTransactionHistory c address limit = Inr r"
  shows "length (transactions r) \<le> nat \<lceil>limit\<rceil>"
proof -
  from assms obtain latest where r: "transactions r =
      sort_key (\<lambda>e. - blockNumber e)
        (scanBlocks c address limit (latest - min 100 latest) latest [])"
    by (rule history_found)
  have "length (scanBlocks c address limit (latest - min 100 latest) latest [])
      \<le> nat \<lceil>limit\<rceil>"
    by (rule scanBlocks_length) simp
  then show ?thesis unfolding r by simp
qed

lemma sorted_desc_sort_key:
  "sorted_wrt (\<lambda>x y. blockNumber y \<le> blockNumber x) (sort_key (\<lambda>e. - blockNumber e) xs)"
proof -
  have "sorted (map (\<lambda>e. - blockNumber e) (sort_key (\<lambda>e. - blockNumber e) xs))"
    by (rule sorted_sort_key)
  then show ?thesis by (simp add: sorted_map)
qed

lemma example_history_two_run:
  "getTransactionHistory example_client example_address 2 = Inr example_history_two"
  by code_simp

lemma example_history_run:
  "getTransactionHistory example_client example_address 5 = Inr example_history"
  by code_simp

text \<open>
  C2, as amended. The list \<open>getTransactionHistory\<close> returns has at most \<open>limit\<close> rounded up
  entries: at most \<open>limit\<close> of them when \<open>limit\<close> is a whole number, none when \<open>limit\<close> is zero
  or negative. Its entries are in descending order of block number.
\<close>

theorem history_bounded_sorted:
  assumes "getTransactionHistory c address limit = Inr r"
  shows "length (transactions r) \<le> nat \<lceil>limit\<rceil> \<and>
         (\<forall>n. limit = of_nat n \<longrightarrow> length (transactions r) \<le> n) \<and>
         sorted_wrt (\<lambda>x y. blockNumber y \<le> blockNumber x) (transactions r)"
proof -
  have len: "length (transactions r) \<le> nat \<lceil>limit\<rceil>"
    using assms by (rule history_length)
  then have whole: "\<forall>n. limit = of_nat n \<longrightarrow> length (transactions r) \<le> n"
    by auto
  from assms obtain latest where "transactions r =
      sort_key (\<lambda>e. - blockNumber e)
        (scanBlocks c address limit (latest - min 100 latest) latest [])"
    by (rule history_found)
  then have "sorted_wrt (\<lambda>x y. blockNumber y \<le> blockNumber x) (transactions r)"
    by (simp only: sorted_desc_sort_key)
  with len whole show ?thesis by blast
qed

theorem history_bounded_sorted_witness:
  "getTransactionHistory example_client example_address 2 = Inr example_history_two \<and>
   length (transactions example_history_two) \<le> 2 \<and>
   sorted_wrt (\<lambda>x y. blockNumber y \<le> blockNumber x) (transactions example_history_two)"
proof -
  note t = history_bounded_sorted [OF example_history_two_run]
  from t have "(2::rat) = of_nat 2 \<longrightarrow> length (transactions example_history_two) \<le> 2"
    by blast
  then have "length (transactions example_history_two) \<le> 2" by simp
  with t example_history_two_run show ?thesis by blast
qed

text \<open>
  C2 as stated fails for a limit that is not a whole number: with limit 2.5 the third
  entry is pushed while the list holds 2 < 2.5 entries, and three entries come back.
\<close>

theorem history_limit_counterexample:
  "getTransactionHistory example_client example_address (5 / 2) = Inr example_history \<and>
   \<not> rat_of_nat (length (transactions example_history)) \<le> 5 / 2"
  by code_simp

text \<open>
  C10, as amended. The \<open>totalCount\<close> of a result is the number of entries of its list,
  hence bounded like the list: by \<open>limit\<close> rounded up, which is \<open>limit\<close> itself when \<open>limit\<close>
  is a whole number. It is not a count of the address's transactions.
\<close>

theorem history_totalCount:
  assumes "getTransactionHistory c address limit = Inr r"
  shows "totalCount r = length (transactions r) \<and> totalCount r \<le> nat \<lceil>limit\<rceil> \<and>
         (\<forall>n. limit = of_nat n \<longrightarrow> totalCount r \<le> n)"
proof -
  from assms have eq: "totalCount r = length (transactions r)"
    by (rule history_found)
  with history_length [OF assms] have le: "totalCount r \<le> nat \<lceil>limit\<rceil>" by simp
  then have "\<forall>n. limit = of_nat n \<longrightarrow> totalCount r \<le> n" by auto
  with eq le show ?thesis by blast
qed

theorem history_totalCount_witness:
  "getTransactionHistory example_client example_address 5 = Inr example_history \<and>
   totalCount example_history = length (transactions example_history) \<and>
   totalCount example_history = 3 \<and> totalCount example_history \<le> 5"
proof -
  note t = history_totalCount [OF example_history_run]
  from t have "(5::rat) = of_nat 5 \<longrightarrow> totalCount example_history \<le> 5" by blast
  then have le: "totalCount example_history \<le> 5" by simp
  have "totalCount example_history = 3" by (simp add: example_history_def)
  with t le example_history_run show ?thesis by blast
qed

text \<open>
  C10 as stated fails in its bound for a limit that is not a whole number: with limit 2.5
  the result holds three entries and its \<open>totalCount\<close> is 3, above the limit.
\<close>

theorem history_totalCount_counterexample:
  "getTransactionHistory example_client example_address (5 / 2) = Inr example_history \<and>
   totalCount example_history = 3 \<and>
   \<not> rat_of_nat (totalCount example_history) \<le> 5 / 2"
  by code_simp

subsection \<open>Where the entries come from\<close>

lemma scanTransactions_entries:
  assumes "e \<in> set (scanTransactions c a limit b txs acc)"
  shows "e \<in> set acc \<or> (\<exists>tx \<in> set txs. isInvolved a tx \<and> make_entry c b tx = Some e)"
  using assms
proof (induction txs arbitrary: acc)
  case Nil
  then show ?case by simp
next
  case (Cons tx txs)
  show ?case
  proof (cases "isInvolved a tx \<and> of_nat (length acc) < limit")
    case True
    show ?thesis
    proof (cases "make_entry c b tx")
      case None
      with True Cons.prems show ?thesis by simp
    next
      case (Some e')
      with True Cons.prems have "e \<in> set (scanTransactions c a limit b txs (acc @ [e']))"
        by simp
      then have "e \<in> set (acc @ [e']) \<or>
          (\<exists>tx \<in> set txs. isInvolved a tx \<and> make_entry c b tx = Some e)"
        by (rule Cons.IH)
      with True Some show ?thesis by auto
    qed
  next
    case False
    with Cons.prems have "e \<in> set (scanTransactions c a limit b txs acc)" by auto
    then have "e \<in> set acc \<or> (\<exists>tx \<in> set txs. isInvolved a tx \<and> make_entry c b tx = Some e)"
      by (rule Cons.IH)
    then show ?thesis by auto
  qed
qed

lemma scanBlocks_entries:
  assumes "e \<in> set (scanBlocks c a limit s n acc)"
  shows "e \<in> set acc \<or>
    (\<exists>k b tx. getBlock c k = Inr b \<and> tx \<in> set (block_transactions b) \<and> isInvolved a tx \<and>
       make_entry c b tx = Some e)"
  using assms
proof (induction c a limit s n acc rule: scanBlocks.induct)
  case (1 c address limit startBlock blockNum acc)
  let ?Q = "\<exists>k b tx. getBlock c k = Inr b \<and> tx \<in> set (block_transactions b) \<and>
       isInvolved address tx \<and> make_entry c b tx = Some e"
  show ?case
  proof (cases "startBlock < blockNum \<and> of_nat (length acc) < limit")
    case True
    show ?thesis
    proof (cases "getBlock c blockNum")
      case (Inl err)
      with True "1.prems"
      have "e \<in> set (scanBlocks c address limit startBlock (blockNum - 1) acc)"
        by (simp add: scanBlocks.simps [of c address limit startBlock blockNum acc])
      with True Inl "1.IH"(1) show ?thesis by blast
    next
      case (Inr b)
      let ?acc' = "scanTransactions c address limit b (block_transactions b) acc"
      from True Inr "1.prems"
      have "e \<in> set (scanBlocks c address limit startBlock (blockNum - 1) ?acc')"
        by (simp add: scanBlocks.simps [of c address limit startBlock blockNum acc])
      with True Inr "1.IH"(2) have "e \<in> set ?acc' \<or> ?Q" by blast
      then show ?thesis
      proof
        assume "e \<in> set ?acc'"
        then have "e \<in> set acc \<or>
            (\<exists>tx \<in> set (block_transactions b). isInvolved address tx \<and>
               make_entry c b tx = Some e)"
          by (rule scanTransactions_entries)
        with Inr show ?thesis by blast
      next
        assume ?Q
        then show ?thesis by blast
      qed
    qed
  next
    case False
    then have "scanBlocks c address limit startBlock blockNum acc = acc"
      by (subst scanBlocks.simps) auto
    with "1.prems" show ?thesis by simp
  qed
qed

lemma history_entries:
  assumes "getTransactionHistory c a limit = Inr r" and "e \<in> set (transactions r)"
  shows "\<exists>k b tx. getBlock c k = Inr b \<and> tx \<in> set (block_transactions b) \<and> isInvolved a tx \<and>
       make_entry c b tx = Some e"
proof -
  from assms(1) obtain latest where r: "transactions r =
      sort_key (\<lambda>e. - blockNumber e) (scanBlocks c a limit (latest - min 100 latest) latest [])"
    by (rule history_found)
  with assms(2) have "e \<in> set (scanBlocks c a limit (latest - min 100 latest) latest [])"
    by simp
  then show ?thesis
    using scanBlocks_entries [of e c a limit "latest - min 100 latest" latest "[]"] by simp
qed

lemma make_entry_fields:
  assumes "make_entry c b tx = Some e"
  shows "hash e = tx_hash tx \<and>
         gasUsed e =
           (case getTransactionReceipt c (tx_hash tx) of
              Inl err \<Rightarrow> 0 | Inr rc \<Rightarrow> receipt_gasUsed rc) \<and>
         gasPrice e = (case tx_gasPrice tx of None \<Rightarrow> 0 | Some g \<Rightarrow> g) \<and>
         fee e = gasUsed e * gasPrice e \<and> txType e = classify tx \<and> to_address e = tx_to tx \<and>
         blockNumber e = block_number b"
  using assms
  by (auto simp: make_entry_def receipt_info_def Let_def
      split: option.splits sum.splits prod.splits if_splits)

subsection \<open>The fee\<close>

text \<open>
  C3. In every entry of a returned history the fee is the product of the entry's gas used
  and gas price, as integers: 21000 and 1000000000 give 21000000000000. The two factors
  are the gas used of the transaction's receipt (0 when the receipt cannot be read) and the
  gas price of the transaction (0 when it has none).
\<close>

theorem history_fee_exact:
  assumes "getTransactionHistory c a limit = Inr r" and "e \<in> set (transactions r)"
  shows "fee e = gasUsed e * gasPrice e \<and>
         (gasUsed e = 21000 \<and> gasPrice e = 1000000000 \<longrightarrow> fee e = 21000000000000) \<and>
         (\<exists>k b tx. getBlock c k = Inr b \<and> tx \<in> set (block_transactions b) \<and>
            hash e = tx_hash tx \<and>
            gasUsed e =
              (case getTransactionReceipt c (tx_hash tx) of
                 Inl err \<Rightarrow> 0 | Inr rc \<Rightarrow> receipt_gasUsed rc) \<and>
            gasPrice e = (case tx_gasPrice tx of None \<Rightarrow> 0 | Some g \<Rightarrow> g))"
proof -
  from assms obtain k b tx where kb: "getBlock c k = Inr b" "tx \<in> set (block_transactions b)"
      and m: "make_entry c b tx = Some e"
    using history_entries by blast
  note f = make_entry_fields [OF m]
  from f have 1: "fee e = gasUsed e * gasPrice e" by blast
  then have 2: "gasUsed e = 21000 \<and> gasPrice e = 1000000000 \<longrightarrow> fee e = 21000000000000"
    by simp
  from kb f have 3: "\<exists>k b tx. getBlock c k = Inr b \<and> tx \<in> set (block_transactions b) \<and>
            hash e = tx_hash tx \<and>
            gasUsed e =
              (case getTransactionReceipt c (tx_hash tx) of
                 Inl err \<Rightarrow> 0 | Inr rc \<Rightarrow> receipt_gasUsed rc) \<and>
            gasPrice e = (case tx_gasPrice tx of None \<Rightarrow> 0 | Some g \<Rightarrow> g)"
    by blast
  from 1 2 3 show ?thesis by blast
qed

theorem history_fee_exact_witness:
  "getTransactionHistory example_client example_address 2 = Inr example_history_two \<and>
   example_entry ''0xa1'' 2 1700000012000 \<in> set (transactions example_history_two) \<and>
   gasUsed (example_entry ''0xa1'' 2 1700000012000) = 21000 \<and>
   gasPrice (example_entry ''0xa1'' 2 1700000012000) = 1000000000 \<and>
   fee (example_entry ''0xa1'' 2 1700000012000) = 21000000000000"
proof -
  have m: "example_entry ''0xa1'' 2 1700000012000 \<in> set (transactions example_history_two)"
    by (simp add: example_history_two_def)
  have g: "gasUsed (example_entry ''0xa1'' 2 1700000012000) = 21000"
    "gasPrice (example_entry ''0xa1'' 2 1700000012000) = 1000000000"
    by (simp_all add: example_entry_def)
  from history_fee_exact [OF example_history_two_run m] g
  have "fee (example_entry ''0xa1'' 2 1700000012000) = 21000000000000" by blast
  with example_history_two_run m g show ?thesis by blast
qed

subsection \<open>The classified type\<close>

lemma str_includes_sublist: "str_includes s sub = sublist sub s"
  by (induction s) (simp_all add: sublist_Cons_right)

lemma leading_selector_included:
  assumes "leading_selector input = sel" and "length sel = 8"
  shows "str_includes (toLowerCase input) sel"
proof -
  define L where "L = toLowerCase input"
  from assms have t: "take 8 (drop 2 L) = sel" by (simp add: leading_selector_def L_def)
  have "take 2 L @ (take 8 (drop 2 L) @ drop 8 (drop 2 L)) = L"
    by (simp only: append_take_drop_id)
  then have "L = take 2 L @ sel @ drop 8 (drop 2 L)" by (simp only: t)
  then have "sublist sel L" unfolding sublist_def by blast
  then show ?thesis by (simp add: str_includes_sublist L_def)
qed

lemma history_entry_type:
  assumes "getTransactionHistory c a limit = Inr r" and "e \<in> set (transactions r)"
  shows "\<exists>k b tx. getBlock c k = Inr b \<and> tx \<in> set (block_transactions b) \<and>
     hash e = tx_hash tx \<and> to_address e = tx_to tx \<and> txType e = classify tx"
proof -
  from assms obtain k b tx where kb: "getBlock c k = Inr b" "tx \<in> set (block_transactions b)"
      and m: "make_entry c b tx = Some e"
    using history_entries by blast
  from make_entry_fields [OF m] kb show ?thesis by blast
qed

text \<open>
  C8, as amended. The type of a collected transaction is \<open>classify\<close> of it
  (\<open>history_entry_type\<close>), and: a contract creation (no recipient) is a contract call;
  otherwise a transaction without call data is a transfer; call data whose leading
  selector is that of transfer or transferFrom is a transfer; call data whose leading
  selector is one of the two swap selectors, and in which no transfer selector occurs, is
  a swap; call data in which none of the four selectors occurs is a contract call.
\<close>

theorem classify_amended:
  "(tx_to tx = None \<longrightarrow> classify tx = Contract) \<and>
   (tx_to tx \<noteq> None \<and> (tx_input tx = [] \<or> tx_input tx = ''0x'') \<longrightarrow>
      classify tx = Transfer) \<and>
   (tx_to tx \<noteq> None \<and> tx_input tx \<noteq> [] \<and> tx_input tx \<noteq> ''0x'' \<and>
      leading_selector (tx_input tx) \<in> {''a9059cbb'', ''23b872dd''} \<longrightarrow>
      classify tx = Transfer) \<and>
   (tx_to tx \<noteq> None \<and> tx_input tx \<noteq> [] \<and> tx_input tx \<noteq> ''0x'' \<and>
      leading_selector (tx_input tx) \<in> {''7ff36ab5'', ''38ed1739''} \<and>
      \<not> str_includes (toLowerCase (tx_input tx)) ''a9059cbb'' \<and>
      \<not> str_includes (toLowerCase (tx_input tx)) ''23b872dd'' \<longrightarrow> classify tx = Swap) \<and>
   (tx_to tx \<noteq> None \<and> tx_input tx \<noteq> [] \<and> tx_input tx \<noteq> ''0x'' \<and>
      \<not> str_includes (toLowerCase (tx_input tx)) ''a9059cbb'' \<and>
      \<not> str_includes (toLowerCase (tx_input tx)) ''23b872dd'' \<and>
      \<not> str_includes (toLowerCase (tx_input tx)) ''7ff36ab5'' \<and>
      \<not> str_includes (toLowerCase (tx_input tx)) ''38ed1739'' \<longrightarrow> classify tx = Contract)"
proof -
  have sel: "\<And>s. leading_selector (tx_input tx) = s \<Longrightarrow> length s = 8 \<Longrightarrow>
      str_includes (toLowerCase (tx_input tx)) s"
    by (rule leading_selector_included)
  have a: "tx_to tx = None \<longrightarrow> classify tx = Contract"
    by (simp add: classify_def)
  have b: "tx_to tx \<noteq> None \<and> (tx_input tx = [] \<or> tx_input tx = ''0x'') \<longrightarrow>
      classify tx = Transfer"
    by (auto simp: classify_def)
  have c: "tx_to tx \<noteq> None \<and> tx_input tx \<noteq> [] \<and> tx_input tx \<noteq> ''0x'' \<and>
      leading_selector (tx_input tx) \<in> {''a9059cbb'', ''23b872dd''} \<longrightarrow>
      classify tx = Transfer"
  proof (intro impI, elim conjE)
    assume to: "tx_to tx \<noteq> None" and i: "tx_input tx \<noteq> []" "tx_input tx \<noteq> ''0x''"
      and l: "leading_selector (tx_input tx) \<in> {''a9059cbb'', ''23b872dd''}"
    from l have "str_includes (toLowerCase (tx_input tx)) ''a9059cbb'' \<or>
        str_includes (toLowerCase (tx_input tx)) ''23b872dd''"
      using sel [of "''a9059cbb''"] sel [of "''23b872dd''"] by auto
    with to i show "classify tx = Transfer" by (auto simp: classify_def Let_def)
  qed
  have d: "tx_to tx \<noteq> None \<and> tx_input tx \<noteq> [] \<and> tx_input tx \<noteq> ''0x'' \<and>
      leading_selector (tx_input tx) \<in> {''7ff36ab5'', ''38ed1739''} \<and>
      \<not> str_includes (toLowerCase (tx_input tx)) ''a9059cbb'' \<and>
      \<not> str_includes (toLowerCase (tx_input tx)) ''23b872dd'' \<longrightarrow> classify tx = Swap"
  proof (intro impI, elim conjE)
    assume to: "tx_to tx \<noteq> None" and i: "tx_input tx \<noteq> []" "tx_input tx \<noteq> ''0x''"
      and l: "leading_selector (tx_input tx) \<in> {''7ff36ab5'', ''38ed1739''}"
      and n: "\<not> str_includes (toLowerCase (tx_input tx)) ''a9059cbb''"
        "\<not> str_includes (toLowerCase (tx_input tx)) ''23b872dd''"
    from l have "str_includes (toLowerCase (tx_input tx)) ''7ff36ab5'' \<or>
        str_includes (toLowerCase (tx_input tx)) ''38ed1739''"
      using sel [of "''7ff36ab5''"] sel [of "''38ed1739''"] by auto
    with to i n show "classify tx = Swap" by (auto simp: classify_def Let_def)
  qed
  have e: "tx_to tx \<noteq> None \<and> tx_input tx \<noteq> [] \<and> tx_input tx \<noteq> ''0x'' \<and>
      \<not> str_includes (toLowerCase (tx_input tx)) ''a9059cbb'' \<and>
      \<not> str_includes (toLowerCase (tx_input tx)) ''23b872dd'' \<and>
      \<not> str_includes (toLowerCase (tx_input tx)) ''7ff36ab5'' \<and>
      \<not> str_includes (toLowerCase (tx_input tx)) ''38ed1739'' \<longrightarrow> classify tx = Contract"
    by (auto simp: classify_def Let_def)
  from a b c d e show ?thesis by blast
qed

theorem classify_amended_witness:
  "classify example_creation = Contract \<and> classify (example_tx ''0xa1'') = Transfer \<and>
   classify example_transfer_call = Transfer \<and> classify example_swap_call = Swap \<and>
   classify example_other_call = Contract"
proof -
  have a: "tx_to example_creation = None"
    by (simp add: example_creation_def)
  have b: "tx_to (example_tx ''0xa1'') \<noteq> None \<and>
      (tx_input (example_tx ''0xa1'') = [] \<or> tx_input (example_tx ''0xa1'') = ''0x'')"
    by (simp add: example_tx_def)
  have c: "tx_to example_transfer_call \<noteq> None \<and> tx_input example_transfer_call \<noteq> [] \<and>
      tx_input example_transfer_call \<noteq> ''0x'' \<and>
      leading_selector (tx_input example_transfer_call) \<in> {''a9059cbb'', ''23b872dd''}"
    by code_simp
  have d: "tx_to example_swap_call \<noteq> None \<and> tx_input example_swap_call \<noteq> [] \<and>
      tx_input example_swap_call \<noteq> ''0x'' \<and>
      leading_selector (tx_input example_swap_call) \<in> {''7ff36ab5'', ''38ed1739''} \<and>
      \<not> str_includes (toLowerCase (tx_input example_swap_call)) ''a9059cbb'' \<and>
      \<not> str_includes (toLowerCase (tx_input example_swap_call)) ''23b872dd''"
    by code_simp
  have e: "tx_to example_other_call \<noteq> None \<and> tx_input example_other_call \<noteq> [] \<and>
      tx_input example_other_call \<noteq> ''0x'' \<and>
      \<not> str_includes (toLowerCase (tx_input example_other_call)) ''a9059cbb'' \<and>
      \<not> str_includes (toLowerCase (tx_input example_other_call)) ''23b872dd'' \<and>
      \<not> str_includes (toLowerCase (tx_input example_other_call)) ''7ff36ab5'' \<and>
      \<not> str_includes (toLowerCase (tx_input example_other_call)) ''38ed1739''"
    by code_simp
  from a classify_amended [of example_creation]
  have 1: "classify example_creation = Contract" by blast
  from b classify_amended [of "example_tx ''0xa1''"]
  have 2: "classify (example_tx ''0xa1'') = Transfer" by blast
  from c classify_amended [of example_transfer_call]
  have 3: "classify example_transfer_call = Transfer" by blast
  from d classify_amended [of example_swap_call]
  have 4: "classify example_swap_call = Swap" by blast
  from e classify_amended [of example_other_call]
  have 5: "classify example_other_call = Contract" by blast
  from 1 2 3 4 5 show ?thesis by blast
qed

text \<open>
  C8 as stated fails twice. A call whose own selector is unknown and whose argument holds
  the bytes \<^verbatim>\<open>a9059cbb\<close> is classified a transfer, where the leading selector says
  contract; a contract creation without call data is classified a contract call, where
  the absence of call data says transfer.
\<close>

theorem classify_counterexample:
  "getTransactionHistory calls_client example_sender 10 =
     Inr \<lparr>transactions =
            [calls_entry ''0xc1'' (Some example_address) Transfer,
             calls_entry ''0xc2'' None Contract],
          totalCount = 2\<rparr> \<and>
   classify example_call = Transfer \<and> spec_txType example_call = Contract \<and>
   classify example_creation = Contract \<and> spec_txType example_creation = Transfer"
  by code_simp

section \<open>Wallet activity\<close>

lemma scanTransactions_none:
  assumes "\<forall>tx \<in> set txs. \<not> isInvolved a tx"
  shows "scanTransactions c a limit b txs acc = acc"
  using assms by (induction txs arbitrary: acc) simp_all

lemma scanBlocks_none:
  assumes "\<forall>k b tx. s < k \<and> k \<le> n \<and> getBlock c k = Inr b \<and> tx \<in> set (block_transactions b)
             \<longrightarrow> \<not> isInvolved a tx"
  shows "scanBlocks c a limit s n acc = acc"
  using assms
proof (induction c a limit s n acc rule: scanBlocks.induct)
  case (1 c address limit startBlock blockNum acc)
  show ?case
  proof (cases "startBlock < blockNum \<and> of_nat (length acc) < limit")
    case True
    have rest: "\<forall>k b tx. startBlock < k \<and> k \<le> blockNum - 1 \<and> getBlock c k = Inr b \<and>
        tx \<in> set (block_transactions b) \<longrightarrow> \<not> isInvolved address tx"
    proof (intro allI impI)
      fix k b tx
      assume "startBlock < k \<and> k \<le> blockNum - 1 \<and> getBlock c k = Inr b \<and>
        tx \<in> set (block_transactions b)"
      then have "startBlock < k \<and> k \<le> blockNum \<and> getBlock c k = Inr b \<and>
        tx \<in> set (block_transactions b)" by simp
      with "1.prems" show "\<not> isInvolved address tx" by blast
    qed
    show ?thesis
    proof (cases "getBlock c blockNum")
      case (Inl err)
      from "1.IH"(1) [OF True Inl rest] True Inl show ?thesis
        by (simp add: scanBlocks.simps [of c address limit startBlock blockNum acc])
    next
      case (Inr b)
      from True Inr "1.prems" have "\<forall>tx \<in> set (block_transactions b). \<not> isInvolved address tx"
        by auto
      then have t: "scanTransactions c address limit b (block_transactions b) acc = acc"
        by (rule scanTransactions_none)
      from "1.IH"(2) [OF True Inr rest] True Inr t show ?thesis
        by (simp add: scanBlocks.simps [of c address limit startBlock blockNum acc])
    qed
  next
    case False
    then show ?thesis by (subst scanBlocks.simps) auto
  qed
qed

lemma bystander_not_involved: "\<not> isInvolved example_bystander (example_tx h)"
  by (simp add: isInvolved_def example_tx_def example_bystander_def example_sender_def
      example_address_def toLowerCase_def toLowerChar_def code_unit_def)

text \<open>
  C9, as amended. When the chain reports transaction count 0 for an address, the block
  height can be read, and no block of the scanned window (the last 100 blocks, or all of
  them on a shorter chain) holds a transaction sent by or to the address,
  \<open>getWalletActivity\<close> returns no last activity and an empty list of recent transactions.
\<close>

theorem wallet_activity_inactive:
  assumes "getTransactionCount c a = Inr 0" and "getBlockNumber c = Inr latest"
    and "\<forall>k b tx. latest - min 100 latest < k \<and> k \<le> latest \<and> getBlock c k = Inr b \<and>
           tx \<in> set (block_transactions b) \<longrightarrow> \<not> isInvolved a tx"
  shows "getWalletActivity c a random now =
    Inr \<lparr>transactionCount = 0, lastActivity = None, recentTransactions = []\<rparr>"
proof -
  from assms(3) have "scanBlocks c a 5 (latest - min 100 latest) latest [] = []"
    by (rule scanBlocks_none)
  with assms(2) have "getTransactionHistory c a 5 = Inr \<lparr>transactions = [], totalCount = 0\<rparr>"
    by (simp add: getTransactionHistory_def)
  with assms(1) show ?thesis by (simp add: getWalletActivity_def)
qed

theorem wallet_activity_inactive_witness:
  "getTransactionCount example_client example_bystander = Inr 0 \<and>
   getBlockNumber example_client = Inr 2 \<and>
   getBlock example_client 2 =
     Inr \<lparr>block_number = 2, block_timestamp = 1700000012,
          block_transactions = [example_tx ''0xa1'', example_tx ''0xa2'']\<rparr> \<and>
   getWalletActivity example_client example_bystander 0 1700000100000 =
     Inr \<lparr>transactionCount = 0, lastActivity = None, recentTransactions = []\<rparr>"
proof -
  have n: "getTransactionCount example_client example_bystander = Inr 0"
    by (simp add: example_client_def example_bystander_def example_sender_def)
  have l: "getBlockNumber example_client = Inr 2"
    by (simp add: example_client_def)
  have b: "getBlock example_client 2 =
     Inr \<lparr>block_number = 2, block_timestamp = 1700000012,
          block_transactions = [example_tx ''0xa1'', example_tx ''0xa2'']\<rparr>"
    by (simp add: example_client_def example_block_def)
  have q: "\<forall>k b tx. 2 - min 100 2 < k \<and> k \<le> 2 \<and> getBlock example_client k = Inr b \<and>
           tx \<in> set (block_transactions b) \<longrightarrow> \<not> isInvolved example_bystander tx"
    by (auto simp: example_client_def example_block_def bystander_not_involved split: if_splits)
  from wallet_activity_inactive [OF n l q] n l b show ?thesis by blast
qed

text \<open>
  C9 as stated fails for an address that has only received: its transaction count is 0,
  the scan finds the incoming transactions, and the newest one is its last activity.
\<close>

theorem wallet_activity_counterexample:
  "getTransactionCount example_client example_address = Inr 0 \<and>
   getWalletActivity example_client example_address 0 1700000100000 = Inr example_activity \<and>
   lastActivity example_activity \<noteq> None \<and> recentTransactions example_activity \<noteq> []"
  by code_simp

section \<open>Network resolution\<close>

subsection \<open>Lower-casing leaves no capital letter\<close>

lemma toLowerChar_not_upper:
  "\<not> (65 \<le> code_unit (toLowerChar c) \<and> code_unit (toLowerChar c) \<le> 90)"
proof -
  have b: "code_unit c < 256" by (simp add: code_unit_def)
  show ?thesis
  proof (cases "(65 \<le> code_unit c \<and> code_unit c \<le> 90) \<or>
      (192 \<le> code_unit c \<and> code_unit c \<le> 222 \<and> code_unit c \<noteq> 215)")
    case True
    then have "toLowerChar c = char_of (code_unit c + 32)"
      unfolding toLowerChar_def Let_def by (rule if_P)
    moreover from True have "code_unit c + 32 < 256" by auto
    then have "code_unit (char_of (code_unit c + 32)) = code_unit c + 32"
      by (simp add: code_unit_def)
    ultimately show ?thesis using True by auto
  next
    case False
    then have "toLowerChar c = c"
      unfolding toLowerChar_def Let_def by (rule if_not_P)
    with False show ?thesis by auto
  qed
qed

lemma toLowerCase_no_upper:
  assumes "65 \<le> code_unit u" and "code_unit u \<le> 90"
  shows "u \<notin> set (toLowerCase s)"
proof
  assume "u \<in> set (toLowerCase s)"
  then obtain c where "u = toLowerChar c" by (auto simp: toLowerCase_def)
  with assms toLowerChar_not_upper [of c] show False by simp
qed

lemma lowered_prototype_key:
  assumes "toLowerCase s \<in> fst ` set objectPrototype"
  shows "toLowerCase s = ''constructor'' \<or> toLowerCase s = ''__proto__''"
proof -
  have G: "CHR ''G'' \<notin> set (toLowerCase s)"
    by (rule toLowerCase_no_upper) (simp_all add: code_unit_def)
  have S: "CHR ''S'' \<notin> set (toLowerCase s)"
    by (rule toLowerCase_no_upper) (simp_all add: code_unit_def)
  have O: "CHR ''O'' \<notin> set (toLowerCase s)"
    by (rule toLowerCase_no_upper) (simp_all add: code_unit_def)
  have P: "CHR ''P'' \<notin> set (toLowerCase s)"
    by (rule toLowerCase_no_upper) (simp_all add: code_unit_def)
  have I: "CHR ''I'' \<notin> set (toLowerCase s)"
    by (rule toLowerCase_no_upper) (simp_all add: code_unit_def)
  from assms G S O P I show ?thesis
    by (auto simp: objectPrototype_def)
qed

subsection \<open>What the two entry points do away from the prototype's keys\<close>

lemma resolveChainId_casing:
  "toLowerCase s = toLowerCase t \<Longrightarrow> resolveChainId (StrId s) = resolveChainId (StrId t)"
  by (simp add: resolveChainId_def)

lemma resolveChainId_alias:
  assumes "known_alias (toLowerCase s)"
  shows "(toLowerCase s = ''sei'' \<and> resolveChainId (StrId s) = JNum 1329) \<or>
         (toLowerCase s = ''sei-testnet'' \<and> resolveChainId (StrId s) = JNum 1328) \<or>
         (toLowerCase s = ''sei-devnet'' \<and> resolveChainId (StrId s) = JNum 713715)"
  using assms
  by (auto simp: known_alias_def networkNameMap_def resolveChainId_def js_in_def js_get_def)

lemma resolveChainId_default:
  assumes "\<not> known_alias (toLowerCase s)" and "toLowerCase s \<noteq> ''constructor''"
    and "toLowerCase s \<noteq> ''__proto__''" and "parseInt (toLowerCase s) None = None"
  shows "resolveChainId (StrId s) = JNum DEFAULT_CHAIN_ID"
proof -
  from assms(2,3) lowered_prototype_key [of s]
  have "toLowerCase s \<notin> fst ` set objectPrototype" by blast
  with assms(1) have "\<not> js_in (toLowerCase s) networkNameMap"
    by (simp add: js_in_def known_alias_def)
  with assms(4) show ?thesis by (simp add: resolveChainId_def)
qed

lemma getChain_unknown:
  assumes "\<not> known_alias (toLowerCase s)" and "toLowerCase s \<noteq> ''constructor''"
    and "toLowerCase s \<noteq> ''__proto__''"
  shows "getChain (StrId s) = Inl (Error (''Unsupported network: '' @ s))"
proof -
  from assms(2,3) lowered_prototype_key [of s]
  have "toLowerCase s \<notin> fst ` set objectPrototype" by blast
  then have p: "map_of objectPrototype (toLowerCase s) = None"
    by (simp add: map_of_eq_None_iff)
  from assms(1) have "map_of networkNameMap (toLowerCase s) = None"
    by (simp add: known_alias_def map_of_eq_None_iff)
  with p have "js_get networkNameMap (toLowerCase s) = JUndefined"
    by (simp add: js_get_def)
  then show ?thesis by (simp add: getChain_def truthy_def)
qed

subsection \<open>The string \<^verbatim>\<open>constructor\<close>\<close>

text \<open>
  C5 at the input \<^verbatim>\<open>constructor\<close>. The string is no alias and \<open>parseInt\<close> gives
  \<^verbatim>\<open>NaN\<close> on it, yet \<^verbatim>\<open>'constructor' in networkNameMap\<close> holds through the prototype, and
  \<open>resolveChainId\<close> returns \<^verbatim>\<open>Object.prototype.constructor\<close> instead of the default
  chain id. Every other string that is no alias, is not \<^verbatim>\<open>__proto__\<close> in lower case
  and does not parse gets the default (\<open>resolveChainId_default\<close>), and the result
  never depends on the casing (\<open>resolveChainId_casing\<close>).
\<close>

theorem resolveChainId_constructor:
  "\<not> known_alias (toLowerCase ''constructor'') \<and>
   parseInt (toLowerCase ''constructor'') None = None \<and>
   resolveChainId (StrId ''constructor'') = JObjectConstructor \<and>
   resolveChainId (StrId ''constructor'') \<noteq> JNum DEFAULT_CHAIN_ID"
  by code_simp

text \<open>
  C6 at the input \<^verbatim>\<open>constructor\<close>. \<^verbatim>\<open>networkNameMap['constructor']\<close> is a function and
  so truthy, \<open>chainMap\<close> has no entry for it, and \<open>getChain\<close> returns the \<open>sei\<close> chain
  instead of throwing. Every other string that is no alias and is not \<^verbatim>\<open>__proto__\<close> in
  lower case makes \<open>getChain\<close> throw (\<open>getChain_unknown\<close>); \<^verbatim>\<open>ethereum\<close> is one for which
  \<open>resolveChainId\<close> falls back to the default chain id.
\<close>

theorem getChain_constructor:
  "\<not> known_alias (toLowerCase ''constructor'') \<and>
   getChain (StrId ''constructor'') = Inr (JChain sei) \<and>
   resolveChainId (StrId ''ethereum'') = JNum DEFAULT_CHAIN_ID \<and>
   getChain (StrId ''ethereum'') = Inl (Error ''Unsupported network: ethereum'')"
  by code_simp

section \<open>The risk score\<close>

lemma count_risk_nonneg: "0 \<le> count_risk n"
  by (simp add: count_risk_def)

lemma recency_risk_nonneg: "0 \<le> recency_risk l n"
  by (simp add: recency_risk_def Let_def split: option.splits)

lemma balance_risk_nonneg: "0 \<le> balance_risk b"
  by (simp add: balance_risk_def split: jsnum.splits)

lemma riskScore_in_range:
  assumes "parseInt (slice_last4 a) (Some 16) = Some n" and "0 \<le> n"
  shows "in_range (riskScore count last_ms now bal a)"
proof -
  define x where "x = 5 / 100 + count_risk count + recency_risk last_ms now + balance_risk bal +
    (of_int n / 65535) * (1 / 10)"
  have r: "riskScore count last_ms now bal a = Num (min x (85 / 100))"
    using assms(1) by (simp add: riskScore_def Let_def x_def)
  from assms(2) have "0 \<le> (of_int n / 65535) * (1 / 10 :: rat)" by simp
  then have "5 / 100 \<le> x"
    using count_risk_nonneg [of count] recency_risk_nonneg [of last_ms now]
      balance_risk_nonneg [of bal]
    unfolding x_def by linarith
  then have lo: "5 / 100 \<le> min x (85 / 100)" by (simp add: min_def)
  have hi: "min x (85 / 100) \<le> 85 / 100" by (rule min.cobounded2)
  show ?thesis unfolding r in_range_def jsnum.case using lo hi by (rule conjI)
qed

lemma hex_digit_props:
  assumes "is_hex_digit c"
  shows "\<not> is_js_whitespace c" "c \<noteq> CHR ''-''" "c \<noteq> CHR ''+''" "c \<noteq> CHR ''x''"
    "c \<noteq> CHR ''X''" "is_radix_digit 16 c"
  using assms
  by (auto simp: is_hex_digit_def is_js_whitespace_def is_radix_digit_def digit_value_def
      code_unit_def)

lemma parseInt_hex_digits:
  assumes "S \<noteq> []" and "list_all is_hex_digit S"
  shows "\<exists>n. 0 \<le> n \<and> parseInt S (Some 16) = Some n"
proof -
  from assms obtain c cs where S: "S = c # cs" by (cases S) auto
  with assms(2) have c: "is_hex_digit c" and cs: "list_all is_hex_digit cs" by simp_all
  from c have d: "dropWhile is_js_whitespace S = S"
    by (simp add: S hex_digit_props)
  from c have g: "strip_sign S = (1, S)"
    by (simp add: S strip_sign_def hex_digit_props)
  have np: "take 2 S \<noteq> ''0x'' \<and> take 2 S \<noteq> ''0X''"
  proof (cases cs)
    case Nil
    then show ?thesis by (simp add: S)
  next
    case (Cons x xs)
    with cs have "is_hex_digit x" by simp
    then have "x \<noteq> CHR ''x''" "x \<noteq> CHR ''X''" by (simp_all add: hex_digit_props)
    with Cons show ?thesis by (simp add: S)
  qed
  have "\<forall>x \<in> set S. is_radix_digit 16 x"
    using assms(2) by (auto simp: list_all_iff hex_digit_props)
  then have z: "takeWhile (is_radix_digit 16) S = S" by (simp add: takeWhile_eq_all_conv)
  have "parseInt S (Some 16) = Some (int (digits_value 16 S))"
    using assms(1) np by (simp add: parseInt_def d g z Let_def)
  then show ?thesis by simp
qed

lemma evm_address_tail:
  assumes "valid_evm_address a"
  shows "\<exists>n. 0 \<le> n \<and> parseInt (slice_last4 a) (Some 16) = Some n"
proof -
  from assms have len: "length a = 42" and h: "list_all is_hex_digit (drop 2 a)"
    by (simp_all add: valid_evm_address_def)
  have t: "slice_last4 a = drop 36 (drop 2 a)" by (simp add: slice_last4_def len)
  have "set (drop 36 (drop 2 a)) \<subseteq> set (drop 2 a)" by (rule set_drop_subset)
  with h have "list_all is_hex_digit (slice_last4 a)" unfolding t by (auto simp: list_all_iff)
  moreover have "slice_last4 a \<noteq> []" by (simp add: slice_last4_def len)
  ultimately show ?thesis by (rule parseInt_hex_digits [rotated])
qed

lemma riskScore_evm_address:
  assumes "valid_evm_address a"
  shows "in_range (riskScore count last_ms now bal a)"
proof -
  from assms obtain n where "0 \<le> n" "parseInt (slice_last4 a) (Some 16) = Some n"
    using evm_address_tail by blast
  then show ?thesis by (simp add: riskScore_in_range)
qed

text \<open>
  C1 at a \<^verbatim>\<open>sei1\<close> address. The address passes \<open>validateAddress\<close>; its last four
  characters are no hexadecimal number, the address term is \<^verbatim>\<open>NaN\<close>, and so is the score
  after \<^verbatim>\<open>Math.min\<close>, whatever the transaction count, the last activity and the balance.
  For an address whose last four characters are hexadecimal digits, as in every
  \<^verbatim>\<open>0x\<close> address, the score is within [0.05, 0.85] (\<open>riskScore_evm_address\<close>).
\<close>

theorem riskScore_sei_address:
  "validateAddress example_sei_address = Inr example_sei_address \<and>
   riskScore count last_ms now balanceValue example_sei_address = NaN \<and>
   \<not> in_range (riskScore count last_ms now balanceValue example_sei_address)"
proof -
  have v: "validateAddress example_sei_address = Inr example_sei_address" by code_simp
  have p: "parseInt (slice_last4 example_sei_address) (Some 16) = None" by code_simp
  from p have "riskScore count last_ms now balanceValue example_sei_address = NaN"
    by (simp add: riskScore_def)
  with v show ?thesis by (simp add: in_range_def)
qed

end
